theory Spec2Isabelle
  imports Main "HOL-Library.Char_ord" "HOL-Library.List_Lexorder"
begin

section \<open>Values shared by the two workers\<close>

text \<open>
  The repository holds two Cloudflare Workers with the same interface: the in-memory
  worker \<^verbatim>\<open>cloudflare-worker.js\<close> and the D1 worker (\<^verbatim>\<open>part_000\<close>). Both export one
  \<^verbatim>\<open>fetch(request, env)\<close> handler. The handlers are modelled as functions from the
  request, the readings of the environment (clock, database) and the store to the
  response and the new store.

  JSON values: what \<^verbatim>\<open>request.json()\<close> returns and what \<^verbatim>\<open>JSON.stringify\<close> is
  applied to. Numbers are the integers (a JavaScript number is a double; the model is
  exact on the integers of magnitude below \<open>2^53\<close>). An object is the list of its own
  properties in insertion order, each key once.
\<close>

datatype json =
    JNull
  | JBool bool
  | JNum int
  | JStr string
  | JArr "json list"
  | JObj "(string \<times> json) list"

text \<open>
  Property read \<^verbatim>\<open>data.k\<close>, as the destructuring patterns of the handlers do it, for a
  value that is not \<^verbatim>\<open>null\<close>: \<open>None\<close> is \<^verbatim>\<open>undefined\<close>. The handlers read only the
  keys \<^verbatim>\<open>email\<close>, \<^verbatim>\<open>comment\<close>, \<^verbatim>\<open>color\<close> and \<^verbatim>\<open>id\<close>, which no string, number, boolean
  or array defines.
\<close>

fun js_prop :: "json \<Rightarrow> string \<Rightarrow> json option" where
  "js_prop (JObj kvs) k = map_of kvs k"
| "js_prop _ k = None"

text \<open>An object literal handed to \<^verbatim>\<open>JSON.stringify\<close>: a property whose value is
  \<^verbatim>\<open>undefined\<close> is left out.\<close>

fun stringify_props :: "(string \<times> json option) list \<Rightarrow> (string \<times> json) list" where
  "stringify_props [] = []"
| "stringify_props ((k, None) # kvs) = stringify_props kvs"
| "stringify_props ((k, Some v) # kvs) = (k, v) # stringify_props kvs"

record request =
  rq_method :: string
  rq_pathname :: string
  rq_searchParams :: "(string \<times> string) list"
  rq_headers :: "(string \<times> string) list"
  rq_json :: "json option"

text \<open>
  \<open>rq_pathname\<close> and \<open>rq_searchParams\<close> are \<^verbatim>\<open>new URL(request.url)\<close>; \<open>rq_json\<close> is the
  outcome of \<^verbatim>\<open>await request.json()\<close>, \<open>None\<close> when the body is not valid JSON and the
  call throws. \<^verbatim>\<open>searchParams.get\<close> and \<^verbatim>\<open>headers.get\<close> return the first value of the
  name, or \<^verbatim>\<open>null\<close>.
\<close>

record response =
  status :: nat
  resp_headers :: "(string \<times> string) list"
  resp_body :: "json option"

definition json_response :: "nat \<Rightarrow> (string \<times> string) list \<Rightarrow> json \<Rightarrow> response" where
  "json_response st cors j =
     \<lparr>status = st, resp_headers = (''Content-Type'', ''application/json'') # cors,
      resp_body = Some j\<rparr>"

definition preflight_response :: "(string \<times> string) list \<Rightarrow> response" where
  "preflight_response cors = \<lparr>status = 200, resp_headers = cors, resp_body = None\<rparr>"

subsection \<open>The message literals of the source, as UTF-8 bytes\<close>

definition msg_submit_ok :: string where
  "msg_submit_ok = [CHR 0xE7, CHR 0x95, CHR 0x99, CHR 0xE8, CHR 0xA8, CHR 0x80, CHR 0xE6,
     CHR 0x8F, CHR 0x90, CHR 0xE4, CHR 0xBA, CHR 0xA4, CHR 0xE6, CHR 0x88, CHR 0x90, CHR 0xE5,
     CHR 0x8A, CHR 0x9F, CHR 0xEF, CHR 0xBC, CHR 0x81]"

definition msg_bad_format :: string where
  "msg_bad_format = [CHR 0xE8, CHR 0xAF, CHR 0xB7, CHR 0xE6, CHR 0xB1, CHR 0x82, CHR 0xE6,
     CHR 0xA0, CHR 0xBC, CHR 0xE5, CHR 0xBC, CHR 0x8F, CHR 0xE9, CHR 0x94, CHR 0x99, CHR 0xE8,
     CHR 0xAF, CHR 0xAF]"

definition msg_not_found :: string where
  "msg_not_found = [CHR 0xE6, CHR 0x9C, CHR 0xAA, CHR 0xE6, CHR 0x89, CHR 0xBE, CHR 0xE5,
     CHR 0x88, CHR 0xB0, CHR 0x20, CHR 0x41, CHR 0x50, CHR 0x49, CHR 0x20, CHR 0xE7, CHR 0xAB,
     CHR 0xAF, CHR 0xE7, CHR 0x82, CHR 0xB9]"

definition msg_init_ok :: string where
  "msg_init_ok = [CHR 0xE2, CHR 0x9C, CHR 0x85, CHR 0x20, CHR 0xE6, CHR 0x95, CHR 0xB0,
     CHR 0xE6, CHR 0x8D, CHR 0xAE, CHR 0xE5, CHR 0xBA, CHR 0x93, CHR 0xE8, CHR 0xA1, CHR 0xA8,
     CHR 0xE5, CHR 0xB7, CHR 0xB2, CHR 0xE5, CHR 0x88, CHR 0x9D, CHR 0xE5, CHR 0xA7, CHR 0x8B,
     CHR 0xE5, CHR 0x8C, CHR 0x96]"

definition msg_init_failed :: string where
  "msg_init_failed = [CHR 0xE2, CHR 0x9D, CHR 0x8C, CHR 0x20, CHR 0xE6, CHR 0x95, CHR 0xB0,
     CHR 0xE6, CHR 0x8D, CHR 0xAE, CHR 0xE5, CHR 0xBA, CHR 0x93, CHR 0xE5, CHR 0x88, CHR 0x9D,
     CHR 0xE5, CHR 0xA7, CHR 0x8B, CHR 0xE5, CHR 0x8C, CHR 0x96, CHR 0xE5, CHR 0xA4, CHR 0xB1,
     CHR 0xE8, CHR 0xB4, CHR 0xA5, CHR 0x3A]"

definition msg_list_failed :: string where
  "msg_list_failed = [CHR 0xE8, CHR 0x8E, CHR 0xB7, CHR 0xE5, CHR 0x8F, CHR 0x96, CHR 0xE7,
     CHR 0x95, CHR 0x99, CHR 0xE8, CHR 0xA8, CHR 0x80, CHR 0xE5, CHR 0xA4, CHR 0xB1, CHR 0xE8,
     CHR 0xB4, CHR 0xA5]"

definition msg_submit_failed :: string where
  "msg_submit_failed = [CHR 0xE6, CHR 0x8F, CHR 0x90, CHR 0xE4, CHR 0xBA, CHR 0xA4, CHR 0xE5,
     CHR 0xA4, CHR 0xB1, CHR 0xE8, CHR 0xB4, CHR 0xA5]"

definition msg_need_id :: string where
  "msg_need_id = [CHR 0xE9, CHR 0x9C, CHR 0x80, CHR 0xE8, CHR 0xA6, CHR 0x81, CHR 0xE7,
     CHR 0x95, CHR 0x99, CHR 0xE8, CHR 0xA8, CHR 0x80, CHR 0x49, CHR 0x44]"

definition msg_delete_failed :: string where
  "msg_delete_failed = [CHR 0xE5, CHR 0x88, CHR 0xA0, CHR 0xE9, CHR 0x99, CHR 0xA4, CHR 0xE5,
     CHR 0xA4, CHR 0xB1, CHR 0xE8, CHR 0xB4, CHR 0xA5]"

definition msg_cleanup_failed :: string where
  "msg_cleanup_failed = [CHR 0xE6, CHR 0xB8, CHR 0x85, CHR 0xE7, CHR 0x90, CHR 0x86, CHR 0xE5,
     CHR 0xA4, CHR 0xB1, CHR 0xE8, CHR 0xB4, CHR 0xA5]"

definition msg_cleaned_1 :: string where
  "msg_cleaned_1 = [CHR 0xE5, CHR 0xB7, CHR 0xB2, CHR 0xE6, CHR 0xB8, CHR 0x85, CHR 0xE7,
     CHR 0x90, CHR 0x86]"

definition msg_cleaned_2 :: string where
  "msg_cleaned_2 = [CHR 0xE6, CHR 0x9D, CHR 0xA1]"

definition msg_cleaned_3 :: string where
  "msg_cleaned_3 = [CHR 0xE5, CHR 0xA4, CHR 0xA9, CHR 0xE5, CHR 0x89, CHR 0x8D, CHR 0xE7,
     CHR 0x9A, CHR 0x84, CHR 0xE7, CHR 0x95, CHR 0x99, CHR 0xE8, CHR 0xA8, CHR 0x80]"

subsection \<open>Numbers and dates as text\<close>

definition digit_char :: "nat \<Rightarrow> char" where
  "digit_char d = char_of (48 + d)"

fun dec_nat :: "nat \<Rightarrow> string" where
  "dec_nat n = (if n < 10 then [digit_char n] else dec_nat (n div 10) @ [digit_char (n mod 10)])"

declare dec_nat.simps [simp del]

text \<open>\<^verbatim>\<open>String(n)\<close> of an integer, as a template literal renders it.\<close>

definition dec_int :: "int \<Rightarrow> string" where
  "dec_int i = (if i < 0 then CHR ''-'' # dec_nat (nat (- i)) else dec_nat (nat i))"

text \<open>The last \<open>w\<close> decimal digits of \<open>n\<close>, zero-padded.\<close>

fun pad :: "nat \<Rightarrow> nat \<Rightarrow> string" where
  "pad 0 n = []"
| "pad (Suc w) n = pad w (n div 10) @ [digit_char (n mod 10)]"

text \<open>
  The proleptic Gregorian date \<open>(year, month, day)\<close> of a day number counted from
  1970-01-01, which is what \<^verbatim>\<open>YearFromTime\<close>, \<^verbatim>\<open>MonthFromTime\<close> and \<^verbatim>\<open>DateFromTime\<close> of
  ECMAScript and the date functions of SQLite compute. The computation works on
  400-year eras that start on 1 March.
\<close>

definition civil_from_days :: "int \<Rightarrow> int \<times> int \<times> int" where
  "civil_from_days z =
     (let z' = z + 719468;
          era = z' div 146097;
          doe = z' mod 146097;
          yoe = (doe - doe div 1460 + doe div 36524 - doe div 146096) div 365;
          doy = doe - (365 * yoe + yoe div 4 - yoe div 100);
          mp = (5 * doy + 2) div 153;
          d = doy - (153 * mp + 2) div 5 + 1;
          m = (if mp < 10 then mp + 3 else mp - 9);
          y = yoe + era * 400 + (if m \<le> 2 then 1 else 0)
      in (y, m, d))"

definition iso_year :: "int \<Rightarrow> string" where
  "iso_year y =
     (if 0 \<le> y \<and> y \<le> 9999 then pad 4 (nat y)
      else (if y < 0 then CHR ''-'' else CHR ''+'') # pad 6 (nat \<bar>y\<bar>))"

text \<open>\<^verbatim>\<open>Date.prototype.toISOString\<close> of the valid time value \<open>t\<close> (milliseconds since the
  epoch): \<^verbatim>\<open>YYYY-MM-DDTHH:mm:ss.sssZ\<close>, with a signed six-digit year outside 0..9999.\<close>

definition toISOString :: "int \<Rightarrow> string" where
  "toISOString t =
     (let (y, m, d) = civil_from_days (t div 86400000);
          ms = nat (t mod 86400000)
      in iso_year y @ ''-'' @ pad 2 (nat m) @ ''-'' @ pad 2 (nat d) @ ''T''
         @ pad 2 (ms div 3600000) @ '':'' @ pad 2 (ms div 60000 mod 60) @ '':''
         @ pad 2 (ms div 1000 mod 60) @ ''.'' @ pad 3 (ms mod 1000) @ ''Z'')"

section \<open>The in-memory worker (cloudflare-worker.js)\<close>

text \<open>
  The module-level \<^verbatim>\<open>let comments = []\<close> is the store. A record keeps the values the
  client sent as they are: \<open>None\<close> is a property that was \<^verbatim>\<open>undefined\<close>. \<open>color\<close> is
  never \<^verbatim>\<open>undefined\<close>, because the destructuring pattern defaults it.
\<close>

record comment =
  c_id :: int
  c_email :: "json option"
  c_comment :: "json option"
  c_color :: json
  c_timestamp :: string

text \<open>The two clock readings of a request: \<^verbatim>\<open>Date.now()\<close> and \<^verbatim>\<open>new Date()\<close>, in
  milliseconds since the epoch.\<close>

record mem_env =
  date_now :: int
  new_date :: int

definition mem_corsHeaders :: "(string \<times> string) list" where
  "mem_corsHeaders =
     [(''Access-Control-Allow-Origin'', ''*''),
      (''Access-Control-Allow-Methods'', ''GET, POST, OPTIONS''),
      (''Access-Control-Allow-Headers'', ''Content-Type'')]"

definition comment_json :: "comment \<Rightarrow> json" where
  "comment_json c =
     JObj (stringify_props
       [(''id'', Some (JNum (c_id c))), (''email'', c_email c), (''comment'', c_comment c),
        (''color'', Some (c_color c)), (''timestamp'', Some (JStr (c_timestamp c)))])"

text \<open>\<^verbatim>\<open>const { email, comment, color = 'black' } = data\<close> and the object literal
  \<^verbatim>\<open>newComment\<close>, for \<open>data\<close> that is not \<^verbatim>\<open>null\<close>.\<close>

definition newComment :: "mem_env \<Rightarrow> json \<Rightarrow> comment" where
  "newComment env data =
     \<lparr>c_id = date_now env,
      c_email = js_prop data ''email'',
      c_comment = js_prop data ''comment'',
      c_color = (case js_prop data ''color'' of None \<Rightarrow> JStr ''black'' | Some c \<Rightarrow> c),
      c_timestamp = toISOString (new_date env)\<rparr>"

text \<open>\<^verbatim>\<open>comments.unshift(newComment)\<close>, then the truncation to 100.\<close>

definition unshift_capped :: "comment \<Rightarrow> comment list \<Rightarrow> comment list" where
  "unshift_capped c comments =
     (let comments' = c # comments
      in if length comments' > 100 then take 100 comments' else comments')"

definition mem_bad_request :: response where
  "mem_bad_request = json_response 400 mem_corsHeaders (JObj [(''error'', JStr msg_bad_format)])"

text \<open>
  The handler. A body that is not JSON makes \<^verbatim>\<open>request.json()\<close> throw, and the body
  \<^verbatim>\<open>null\<close> makes the destructuring throw; the \<^verbatim>\<open>catch\<close> answers both with 400.
\<close>

definition mem_fetch :: "mem_env \<Rightarrow> request \<Rightarrow> comment list \<Rightarrow> response \<times> comment list" where
  "mem_fetch env request comments =
     (if rq_method request = ''OPTIONS'' then (preflight_response mem_corsHeaders, comments)
      else if rq_pathname request = ''/health'' then
        (json_response 200 mem_corsHeaders
           (JObj [(''status'', JStr ''ok''),
                  (''timestamp'', JStr (toISOString (new_date env))),
                  (''commentsCount'', JNum (int (length comments)))]),
         comments)
      else if rq_pathname request = ''/api/comments'' \<and> rq_method request = ''GET'' then
        (json_response 200 mem_corsHeaders (JArr (map comment_json comments)), comments)
      else if rq_pathname request = ''/api/comments'' \<and> rq_method request = ''POST'' then
        (case rq_json request of
           None \<Rightarrow> (mem_bad_request, comments)
         | Some JNull \<Rightarrow> (mem_bad_request, comments)
         | Some data \<Rightarrow>
             let c = newComment env data
             in (json_response 200 mem_corsHeaders
                   (JObj [(''success'', JBool True), (''id'', JNum (c_id c)),
                          (''message'', JStr msg_submit_ok)]),
                 unshift_capped c comments))
      else
        (json_response 404 mem_corsHeaders (JObj [(''error'', JStr msg_not_found)]), comments))"

text \<open>A run of the worker: the requests in the order in which they are handled, each
  with its clock readings, starting from the store \<open>comments\<close>.\<close>

fun mem_run :: "comment list \<Rightarrow> (mem_env \<times> request) list \<Rightarrow> comment list" where
  "mem_run comments [] = comments"
| "mem_run comments ((env, request) # rest) = mem_run (snd (mem_fetch env request comments)) rest"

text \<open>A request that inserts: a POST to \<^verbatim>\<open>/api/comments\<close> whose body is JSON and not
  \<^verbatim>\<open>null\<close>.\<close>

definition mem_inserts :: "request \<Rightarrow> bool" where
  "mem_inserts request \<longleftrightarrow>
     rq_method request = ''POST'' \<and> rq_pathname request = ''/api/comments'' \<and>
     (case rq_json request of None \<Rightarrow> False | Some JNull \<Rightarrow> False | Some _ \<Rightarrow> True)"

definition inserted :: "mem_env \<times> request \<Rightarrow> comment" where
  "inserted ev = newComment (fst ev) (the (rq_json (snd ev)))"

section \<open>The D1 worker (part_000)\<close>

subsection \<open>Query parameters\<close>

text \<open>\<^verbatim>\<open>String(v)\<close> of what \<^verbatim>\<open>searchParams.get\<close> returns; \<^verbatim>\<open>null\<close> becomes the text
  \<^verbatim>\<open>null\<close>.\<close>

definition js_to_string :: "string option \<Rightarrow> string" where
  "js_to_string v = (case v of None \<Rightarrow> ''null'' | Some s \<Rightarrow> s)"

definition js_whitespace :: "char \<Rightarrow> bool" where
  "js_whitespace c \<longleftrightarrow> c \<in> {CHR 0x09, CHR 0x0A, CHR 0x0B, CHR 0x0C, CHR 0x0D, CHR '' ''}"

definition digit_value :: "char \<Rightarrow> int option" where
  "digit_value c =
     (let n = of_char c :: int
      in if 48 \<le> n \<and> n \<le> 57 then Some (n - 48)
         else if 97 \<le> n \<and> n \<le> 102 then Some (n - 87)
         else if 65 \<le> n \<and> n \<le> 70 then Some (n - 55)
         else None)"

definition is_digit :: "int \<Rightarrow> char \<Rightarrow> bool" where
  "is_digit radix c = (case digit_value c of None \<Rightarrow> False | Some d \<Rightarrow> d < radix)"

definition digits_value :: "int \<Rightarrow> string \<Rightarrow> int" where
  "digits_value radix z = foldl (\<lambda>acc c. acc * radix + the (digit_value c)) 0 z"

text \<open>
  \<^verbatim>\<open>parseInt(s)\<close> with no radix, after ECMAScript: leading white space is dropped (the
  model knows the ASCII white space), then a sign, then \<^verbatim>\<open>0x\<close> or \<^verbatim>\<open>0X\<close> selects radix
  16, then the longest prefix of digits is read; \<open>None\<close> is \<^verbatim>\<open>NaN\<close>, the result when
  there is no digit. \<^verbatim>\<open>-0\<close> is \<open>0\<close> here; both are falsy.
\<close>

definition parseInt :: "string \<Rightarrow> int option" where
  "parseInt s =
     (let s1 = dropWhile js_whitespace s;
          neg = (case s1 of c # _ \<Rightarrow> c = CHR ''-'' | [] \<Rightarrow> False);
          s2 = (case s1 of c # r \<Rightarrow> if c = CHR ''-'' \<or> c = CHR ''+'' then r else s1 | [] \<Rightarrow> s1);
          hex = (case s2 of c # x # _ \<Rightarrow> c = CHR ''0'' \<and> (x = CHR ''x'' \<or> x = CHR ''X'')
                 | _ \<Rightarrow> False);
          radix = (if hex then 16 else 10);
          s3 = (if hex then drop 2 s2 else s2);
          z = takeWhile (is_digit radix) s3
      in if z = [] then None
         else Some ((if neg then - 1 else 1) * digits_value radix z))"

text \<open>\<^verbatim>\<open>v || d\<close> for a number \<open>v\<close>: \<^verbatim>\<open>NaN\<close> and \<open>0\<close> are falsy.\<close>

definition js_or :: "int option \<Rightarrow> int \<Rightarrow> int" where
  "js_or v d = (case v of None \<Rightarrow> d | Some n \<Rightarrow> if n = 0 then d else n)"

text \<open>\<^verbatim>\<open>s || d\<close> for what \<^verbatim>\<open>headers.get\<close> returns: \<^verbatim>\<open>null\<close> and the empty string are
  falsy.\<close>

definition js_or_str :: "string option \<Rightarrow> string \<Rightarrow> string" where
  "js_or_str v d = (case v of None \<Rightarrow> d | Some s \<Rightarrow> if s = [] then d else s)"

definition search_int :: "request \<Rightarrow> string \<Rightarrow> int \<Rightarrow> int" where
  "search_int request name d =
     js_or (parseInt (js_to_string (map_of (rq_searchParams request) name))) d"

subsection \<open>The database\<close>

text \<open>
  \<^verbatim>\<open>env.DB\<close> is a D1 database, that is SQLite behind the prepared-statement interface of
  the platform. The model holds the one table the worker uses and gives each SQL
  statement of the source its SQLite meaning.
\<close>

datatype sqlval = SqlNull | SqlInt int | SqlText string | SqlBlob "int list"

datatype js_error =
    SyntaxError
  | TypeError
  | RangeError
  | D1_TYPE_ERROR
  | D1_NO_SUCH_TABLE
  | D1_NOT_NULL
  | D1_FAILURE

text \<open>
  \<open>SyntaxError\<close>: \<^verbatim>\<open>request.json()\<close> on a body that is not JSON. \<open>TypeError\<close>:
  destructuring \<^verbatim>\<open>null\<close>, or reading \<^verbatim>\<open>.id\<close> of \<^verbatim>\<open>null\<close>. \<open>RangeError\<close>:
  \<^verbatim>\<open>toISOString\<close> of an invalid date. \<open>D1_TYPE_ERROR\<close>: \<^verbatim>\<open>bind\<close> of a value D1 does not
  take. \<open>D1_NO_SUCH_TABLE\<close> and \<open>D1_NOT_NULL\<close>: the statement fails in SQLite.
  \<open>D1_FAILURE\<close>: the call fails for a reason outside the worker.
\<close>

record row =
  r_id :: int
  r_email :: sqlval
  r_comment :: sqlval
  r_color :: sqlval
  r_created_at :: string
  r_ip_hash :: string
  r_user_agent :: string

text \<open>\<open>comments_table\<close> is \<open>None\<close> until the table exists; the rows are kept in rowid
  order. \<open>sequence\<close> is the largest rowid the table ever held (AUTOINCREMENT).\<close>

record database =
  comments_table :: "row list option"
  sequence :: int

text \<open>
  What a request reads from its environment. \<open>d1_now\<close>: the clock of the worker, in
  milliseconds (each handler reads it at most once). \<open>db_now\<close>: the clock of the
  database, in seconds, for \<^verbatim>\<open>CURRENT_TIMESTAMP\<close>. \<open>d1_fails k\<close>: the \<open>k\<close>-th call of the
  request to the database (counted from 0) fails for an outside reason.
  \<open>sha256_hex\<close>: the SHA-256 digest of a text as 64 hexadecimal characters.
  \<open>database_name\<close>: \<^verbatim>\<open>env.DB.database_name\<close>. \<open>message_of\<close>: the \<^verbatim>\<open>message\<close> text of a
  thrown error. \<open>rows_written_of n\<close>: the \<^verbatim>\<open>meta.rows_written\<close> D1 reports for a
  statement that removed \<open>n\<close> rows.
\<close>

record d1_env =
  d1_now :: int
  db_now :: int
  d1_fails :: "nat \<Rightarrow> bool"
  sha256_hex :: "string \<Rightarrow> string"
  database_name :: "string option"
  message_of :: "js_error \<Rightarrow> string"
  rows_written_of :: "nat \<Rightarrow> nat"

definition d1_call :: "d1_env \<Rightarrow> nat \<Rightarrow> js_error + 'a \<Rightarrow> js_error + 'a" where
  "d1_call env k outcome = (if d1_fails env k then Inl D1_FAILURE else outcome)"

text \<open>\<^verbatim>\<open>CURRENT_TIMESTAMP\<close> of SQLite: \<^verbatim>\<open>YYYY-MM-DD HH:MM:SS\<close> in UTC (years 0..9999).\<close>

definition sqlite_current_timestamp :: "int \<Rightarrow> string" where
  "sqlite_current_timestamp t =
     (let (y, m, d) = civil_from_days (t div 86400);
          s = nat (t mod 86400)
      in pad 4 (nat y) @ ''-'' @ pad 2 (nat m) @ ''-'' @ pad 2 (nat d) @ '' ''
         @ pad 2 (s div 3600) @ '':'' @ pad 2 (s div 60 mod 60) @ '':'' @ pad 2 (s mod 60))"

text \<open>
  \<^verbatim>\<open>bind\<close> of D1 on one argument: numbers and strings pass, a boolean becomes 0 or 1,
  \<^verbatim>\<open>null\<close> passes, an array of bytes is a blob, and anything else, \<^verbatim>\<open>undefined\<close>
  included, throws.
\<close>

fun byte_of :: "json \<Rightarrow> int option" where
  "byte_of (JNum b) = (if 0 \<le> b \<and> b < 256 then Some b else None)"
| "byte_of _ = None"

fun d1_bind :: "json option \<Rightarrow> js_error + sqlval" where
  "d1_bind None = Inl D1_TYPE_ERROR"
| "d1_bind (Some JNull) = Inr SqlNull"
| "d1_bind (Some (JBool b)) = Inr (SqlInt (if b then 1 else 0))"
| "d1_bind (Some (JNum n)) = Inr (SqlInt n)"
| "d1_bind (Some (JStr s)) = Inr (SqlText s)"
| "d1_bind (Some (JArr xs)) =
     (if list_all (\<lambda>x. byte_of x \<noteq> None) xs then Inr (SqlBlob (map (\<lambda>x. the (byte_of x)) xs))
      else Inl D1_TYPE_ERROR)"
| "d1_bind (Some (JObj kvs)) = Inl D1_TYPE_ERROR"

text \<open>A value stored in a column of TEXT affinity: a number is stored as its text.\<close>

fun text_affinity :: "sqlval \<Rightarrow> sqlval" where
  "text_affinity (SqlInt n) = SqlText (dec_int n)"
| "text_affinity v = v"

fun json_of_sqlval :: "sqlval \<Rightarrow> json" where
  "json_of_sqlval SqlNull = JNull"
| "json_of_sqlval (SqlInt n) = JNum n"
| "json_of_sqlval (SqlText s) = JStr s"
| "json_of_sqlval (SqlBlob bs) = JArr (map JNum bs)"

text \<open>\<^verbatim>\<open>CREATE TABLE IF NOT EXISTS comments (...)\<close> and the two
  \<^verbatim>\<open>CREATE INDEX IF NOT EXISTS\<close>: an existing table is left as it is.\<close>

definition sql_create_schema :: "database \<Rightarrow> database" where
  "sql_create_schema db =
     (case comments_table db of
        None \<Rightarrow> \<lparr>comments_table = Some [], sequence = 0\<rparr>
      | Some rows \<Rightarrow> db)"

text \<open>\<^verbatim>\<open>SELECT COUNT(*) as count FROM comments\<close>\<close>

definition sql_count :: "database \<Rightarrow> js_error + nat" where
  "sql_count db =
     (case comments_table db of None \<Rightarrow> Inl D1_NO_SUCH_TABLE | Some rows \<Rightarrow> Inr (length rows))"

text \<open>
  \<^verbatim>\<open>ORDER BY created_at DESC\<close>: the column holds texts, which SQLite compares byte by
  byte. SQL leaves the order of rows with equal \<open>created_at\<close> open; the model keeps
  them in rowid order.
\<close>

definition order_by_created_desc :: "row list \<Rightarrow> row list" where
  "order_by_created_desc rows = rev (sort_key r_created_at (rev rows))"

text \<open>\<^verbatim>\<open>LIMIT ? OFFSET ?\<close>: a negative limit is no limit, a negative offset is 0.\<close>

definition limit_offset :: "int \<Rightarrow> int \<Rightarrow> 'a list \<Rightarrow> 'a list" where
  "limit_offset limit offset xs =
     (let rest = drop (nat offset) xs in if limit < 0 then rest else take (nat limit) rest)"

text \<open>\<^verbatim>\<open>SELECT ... FROM comments ORDER BY created_at DESC LIMIT ? OFFSET ?\<close>\<close>

definition sql_select_page :: "int \<Rightarrow> int \<Rightarrow> database \<Rightarrow> js_error + row list" where
  "sql_select_page limit offset db =
     (case comments_table db of
        None \<Rightarrow> Inl D1_NO_SUCH_TABLE
      | Some rows \<Rightarrow> Inr (limit_offset limit offset (order_by_created_desc rows)))"

text \<open>
  \<^verbatim>\<open>INSERT INTO comments (email, comment, color, ip_hash, user_agent) VALUES (?,?,?,?,?)\<close>.
  \<open>email\<close> and \<open>comment\<close> are \<^verbatim>\<open>NOT NULL\<close>; \<open>id\<close> is the next rowid and \<open>created_at\<close>
  the default \<^verbatim>\<open>CURRENT_TIMESTAMP\<close>. The result carries \<^verbatim>\<open>meta.last_row_id\<close>.
\<close>

definition sql_insert ::
  "int \<Rightarrow> sqlval \<Rightarrow> sqlval \<Rightarrow> sqlval \<Rightarrow> string \<Rightarrow> string \<Rightarrow> database \<Rightarrow> js_error + database \<times> int"
where
  "sql_insert now email comment color ip_hash user_agent db =
     (case comments_table db of
        None \<Rightarrow> Inl D1_NO_SUCH_TABLE
      | Some rows \<Rightarrow>
          if email = SqlNull \<or> comment = SqlNull then Inl D1_NOT_NULL
          else
            let new_id = sequence db + 1;
                r = \<lparr>r_id = new_id, r_email = text_affinity email,
                     r_comment = text_affinity comment, r_color = text_affinity color,
                     r_created_at = sqlite_current_timestamp now,
                     r_ip_hash = ip_hash, r_user_agent = user_agent\<rparr>
            in Inr (\<lparr>comments_table = Some (rows @ [r]), sequence = new_id\<rparr>, new_id))"

text \<open>\<^verbatim>\<open>SELECT id, email, comment, color, created_at as timestamp FROM comments WHERE id = ?\<close>
  with \<^verbatim>\<open>first()\<close>: the row, or \<^verbatim>\<open>null\<close>.\<close>

definition sql_select_by_id :: "int \<Rightarrow> database \<Rightarrow> js_error + row option" where
  "sql_select_by_id i db =
     (case comments_table db of
        None \<Rightarrow> Inl D1_NO_SUCH_TABLE
      | Some rows \<Rightarrow> Inr (find (\<lambda>r. r_id r = i) rows))"

text \<open>
  \<^verbatim>\<open>id = ?\<close> on the integer primary key: a number is compared as it is; a text is
  first converted to a number when it spells one (the model converts the plain decimal
  numerals); \<^verbatim>\<open>NULL\<close> and blobs equal no id.
\<close>

fun id_equals :: "int \<Rightarrow> sqlval \<Rightarrow> bool" where
  "id_equals i (SqlInt n) = (i = n)"
| "id_equals i (SqlText s) = (s = dec_int i)"
| "id_equals i _ = False"

text \<open>\<^verbatim>\<open>DELETE FROM comments WHERE id = ?\<close>: the new table and the number of rows
  removed.\<close>

definition sql_delete_by_id :: "sqlval \<Rightarrow> database \<Rightarrow> js_error + database \<times> nat" where
  "sql_delete_by_id v db =
     (case comments_table db of
        None \<Rightarrow> Inl D1_NO_SUCH_TABLE
      | Some rows \<Rightarrow>
          Inr (db\<lparr>comments_table := Some (filter (\<lambda>r. \<not> id_equals (r_id r) v) rows)\<rparr>,
               length (filter (\<lambda>r. id_equals (r_id r) v) rows)))"

text \<open>\<^verbatim>\<open>DELETE FROM comments WHERE created_at < ?\<close> with a text bound: a comparison of
  texts, byte by byte.\<close>

definition sql_delete_older :: "string \<Rightarrow> database \<Rightarrow> js_error + database \<times> nat" where
  "sql_delete_older cutoff db =
     (case comments_table db of
        None \<Rightarrow> Inl D1_NO_SUCH_TABLE
      | Some rows \<Rightarrow>
          Inr (db\<lparr>comments_table := Some (filter (\<lambda>r. \<not> r_created_at r < cutoff) rows)\<rparr>,
               length (filter (\<lambda>r. r_created_at r < cutoff) rows)))"

text \<open>\<^verbatim>\<open>SELECT name FROM sqlite_master WHERE type='table'\<close>: the tables the schema
  statement creates (tables of the platform's own are not modelled).\<close>

definition sql_table_names :: "database \<Rightarrow> js_error + string list" where
  "sql_table_names db =
     (case comments_table db of
        None \<Rightarrow> Inr []
      | Some rows \<Rightarrow> Inr [''comments'', ''sqlite_sequence''])"

text \<open>\<^verbatim>\<open>SELECT created_at FROM comments ORDER BY created_at DESC LIMIT 1\<close> with
  \<^verbatim>\<open>first()\<close>.\<close>

definition sql_latest_created :: "database \<Rightarrow> js_error + string option" where
  "sql_latest_created db =
     (case comments_table db of
        None \<Rightarrow> Inl D1_NO_SUCH_TABLE
      | Some rows \<Rightarrow>
          Inr (case order_by_created_desc rows of [] \<Rightarrow> None | r # _ \<Rightarrow> Some (r_created_at r)))"

subsection \<open>The handlers\<close>

datatype console = Console_log string | Console_error string js_error

definition d1_corsHeaders :: "(string \<times> string) list" where
  "d1_corsHeaders =
     [(''Access-Control-Allow-Origin'', ''*''),
      (''Access-Control-Allow-Methods'', ''GET, POST, OPTIONS, DELETE''),
      (''Access-Control-Allow-Headers'', ''Content-Type'')]"

text \<open>
  \<^verbatim>\<open>ensureDatabaseInitialized\<close>: the schema statement is the call number 0 of the
  request. Its failure is caught and written to the console; the function returns
  normally either way.
\<close>

definition ensureDatabaseInitialized :: "d1_env \<Rightarrow> database \<Rightarrow> database \<times> console list" where
  "ensureDatabaseInitialized env db =
     (case d1_call env 0 (Inr (sql_create_schema db)) of
        Inl error \<Rightarrow> (db, [Console_error msg_init_failed error])
      | Inr db' \<Rightarrow> (db', [Console_log msg_init_ok]))"

text \<open>The rows of the list query, and the row the submit handler reads back.\<close>

definition listed_json :: "row \<Rightarrow> json" where
  "listed_json r =
     JObj [(''id'', JNum (r_id r)), (''email'', json_of_sqlval (r_email r)),
           (''comment'', json_of_sqlval (r_comment r)), (''color'', json_of_sqlval (r_color r)),
           (''timestamp'', JStr (r_created_at r)), (''ip_hash'', JStr (r_ip_hash r)),
           (''user_agent'', JStr (r_user_agent r))]"

definition created_json :: "row \<Rightarrow> json" where
  "created_json r =
     JObj [(''id'', JNum (r_id r)), (''email'', json_of_sqlval (r_email r)),
           (''comment'', json_of_sqlval (r_comment r)), (''color'', json_of_sqlval (r_color r)),
           (''timestamp'', JStr (r_created_at r))]"

text \<open>\<^verbatim>\<open>/health\<close>, for any method but OPTIONS.\<close>

definition d1_health :: "d1_env \<Rightarrow> database \<Rightarrow> response \<times> database \<times> console list" where
  "d1_health env db =
     (let (db1, log) = ensureDatabaseInitialized env db
      in case d1_call env 1 (sql_count db1) of
           Inl error \<Rightarrow>
             (json_response 500 d1_corsHeaders
                (JObj [(''status'', JStr ''error''), (''error'', JStr (message_of env error))]),
              db1, log)
         | Inr commentCount \<Rightarrow>
             (json_response 200 d1_corsHeaders
                (JObj [(''status'', JStr ''ok''),
                       (''timestamp'', JStr (toISOString (d1_now env))),
                       (''commentsCount'', JNum (int commentCount)),
                       (''storage'', JStr ''D1 Database''),
                       (''database'', JStr (js_or_str (database_name env) ''tomoe_hiyori_db''))]),
              db1, log))"

text \<open>\<^verbatim>\<open>GET /api/comments\<close>: the two numbers bound to \<^verbatim>\<open>LIMIT ? OFFSET ?\<close>.\<close>

definition list_limit :: "request \<Rightarrow> int" where
  "list_limit request = search_int request ''limit'' 100"

definition list_offset :: "request \<Rightarrow> int" where
  "list_offset request = search_int request ''offset'' 0"

definition d1_list :: "d1_env \<Rightarrow> request \<Rightarrow> database \<Rightarrow> response \<times> database \<times> console list" where
  "d1_list env request db =
     (let (db1, log) = ensureDatabaseInitialized env db;
          limit = list_limit request;
          offset = list_offset request
      in case d1_call env 1 (sql_select_page limit offset db1) of
           Inl error \<Rightarrow>
             (json_response 500 d1_corsHeaders
                (JObj [(''error'', JStr msg_list_failed),
                       (''details'', JStr (message_of env error))]),
              db1, log)
         | Inr results \<Rightarrow>
             (json_response 200 d1_corsHeaders (JArr (map listed_json results)), db1, log))"

text \<open>\<^verbatim>\<open>POST /api/comments\<close>. Every throw inside the \<^verbatim>\<open>try\<close> ends in the one \<^verbatim>\<open>catch\<close>,
  which answers 500.\<close>

definition submit_failed :: "d1_env \<Rightarrow> js_error \<Rightarrow> response" where
  "submit_failed env error =
     json_response 500 d1_corsHeaders
       (JObj [(''success'', JBool False), (''error'', JStr msg_submit_failed),
              (''details'', JStr (message_of env error))])"

definition d1_submit :: "d1_env \<Rightarrow> request \<Rightarrow> database \<Rightarrow> response \<times> database \<times> console list" where
  "d1_submit env request db =
     (let (db1, log) = ensureDatabaseInitialized env db
      in case rq_json request of
           None \<Rightarrow> (submit_failed env SyntaxError, db1, log)
         | Some JNull \<Rightarrow> (submit_failed env TypeError, db1, log)
         | Some data \<Rightarrow>
             let email = js_prop data ''email'';
                 comment = js_prop data ''comment'';
                 color = (case js_prop data ''color'' of None \<Rightarrow> JStr ''black'' | Some c \<Rightarrow> c);
                 ip = js_or_str (map_of (rq_headers request) ''CF-Connecting-IP'') ''unknown'';
                 userAgent = js_or_str (map_of (rq_headers request) ''User-Agent'') ''unknown'';
                 ipHash = take 16 (sha256_hex env ip)
             in case d1_bind email of
                  Inl error \<Rightarrow> (submit_failed env error, db1, log)
                | Inr e \<Rightarrow>
               (case d1_bind comment of
                  Inl error \<Rightarrow> (submit_failed env error, db1, log)
                | Inr c \<Rightarrow>
               (case d1_bind (Some color) of
                  Inl error \<Rightarrow> (submit_failed env error, db1, log)
                | Inr k \<Rightarrow>
               (case d1_call env 1
                       (sql_insert (db_now env) e c k ipHash (take 255 userAgent) db1) of
                  Inl error \<Rightarrow> (submit_failed env error, db1, log)
                | Inr (db2, last_row_id) \<Rightarrow>
               (case d1_call env 2 (sql_select_by_id last_row_id db2) of
                  Inl error \<Rightarrow> (submit_failed env error, db2, log)
                | Inr None \<Rightarrow> (submit_failed env TypeError, db2, log)
                | Inr (Some created) \<Rightarrow>
                    (json_response 200 d1_corsHeaders
                       (JObj [(''success'', JBool True), (''id'', JNum (r_id created)),
                              (''message'', JStr msg_submit_ok),
                              (''comment'', created_json created)]),
                     db2, log))))))"

text \<open>\<^verbatim>\<open>!id\<close>: the falsy values JSON can carry, and \<^verbatim>\<open>undefined\<close>.\<close>

fun js_not :: "json option \<Rightarrow> bool" where
  "js_not None = True"
| "js_not (Some JNull) = True"
| "js_not (Some (JBool b)) = (\<not> b)"
| "js_not (Some (JNum n)) = (n = 0)"
| "js_not (Some (JStr s)) = (s = [])"
| "js_not (Some _) = False"

text \<open>\<^verbatim>\<open>DELETE /api/comments\<close>: no call of \<^verbatim>\<open>ensureDatabaseInitialized\<close>; the DELETE
  statement is the call number 0.\<close>

definition d1_delete :: "d1_env \<Rightarrow> request \<Rightarrow> database \<Rightarrow> response \<times> database \<times> console list" where
  "d1_delete env request db =
     (let failed = (json_response 500 d1_corsHeaders (JObj [(''error'', JStr msg_delete_failed)]),
                    db, [])
      in case rq_json request of
           None \<Rightarrow> failed
         | Some JNull \<Rightarrow> failed
         | Some data \<Rightarrow>
             let id' = js_prop data ''id''
             in if js_not id' then
                  (json_response 400 d1_corsHeaders (JObj [(''error'', JStr msg_need_id)]), db, [])
                else
                  (case d1_bind id' of
                     Inl error \<Rightarrow> failed
                   | Inr v \<Rightarrow>
                  (case d1_call env 0 (sql_delete_by_id v db) of
                     Inl error \<Rightarrow> failed
                   | Inr (db', removed) \<Rightarrow>
                       (json_response 200 d1_corsHeaders
                          (JObj [(''success'', JBool (rows_written_of env removed > 0)),
                                 (''deleted'', JNum (int (rows_written_of env removed)))]),
                        db', []))))"

text \<open>
  \<^verbatim>\<open>POST /api/comments/cleanup\<close>: no call of \<^verbatim>\<open>ensureDatabaseInitialized\<close> either.
  \<^verbatim>\<open>new Date(v)\<close> is an invalid date when \<open>v\<close> is more than \<open>8.64e15\<close> ms away from the
  epoch, and \<^verbatim>\<open>toISOString\<close> of an invalid date throws. (On the integers the model
  takes the branch the doubles of JavaScript take: a product that is not exact is far
  outside the range.)
\<close>

definition cleanup_maxAge :: "request \<Rightarrow> int" where
  "cleanup_maxAge request = search_int request ''days'' 30"

definition cleanup_cutoff :: "d1_env \<Rightarrow> request \<Rightarrow> int" where
  "cleanup_cutoff env request = d1_now env - cleanup_maxAge request * 24 * 60 * 60 * 1000"

definition valid_time :: "int \<Rightarrow> bool" where
  "valid_time v \<longleftrightarrow> \<bar>v\<bar> \<le> 8640000000000000"

definition d1_cleanup :: "d1_env \<Rightarrow> request \<Rightarrow> database \<Rightarrow> response \<times> database \<times> console list" where
  "d1_cleanup env request db =
     (let maxAge = cleanup_maxAge request;
          cutoffDate = cleanup_cutoff env request;
          failed = (json_response 500 d1_corsHeaders (JObj [(''error'', JStr msg_cleanup_failed)]),
                    db, [])
      in if \<not> valid_time cutoffDate then failed
         else
           (case d1_call env 0 (sql_delete_older (toISOString cutoffDate) db) of
              Inl error \<Rightarrow> failed
            | Inr (db', removed) \<Rightarrow>
                (json_response 200 d1_corsHeaders
                   (JObj [(''success'', JBool True),
                          (''deleted'', JNum (int (rows_written_of env removed))),
                          (''message'',
                           JStr (msg_cleaned_1 @ dec_nat (rows_written_of env removed)
                                 @ msg_cleaned_2 @ dec_int maxAge @ msg_cleaned_3))]),
                 db', [])))"

text \<open>\<^verbatim>\<open>/admin/db-info\<close>, for any method but OPTIONS: three statements, no call of
  \<^verbatim>\<open>ensureDatabaseInitialized\<close>.\<close>

definition d1_db_info :: "d1_env \<Rightarrow> database \<Rightarrow> response \<times> database \<times> console list" where
  "d1_db_info env db =
     (let failed = (\<lambda>error.
            (json_response 500 d1_corsHeaders (JObj [(''error'', JStr (message_of env error))]),
             db, []))
      in case d1_call env 0 (sql_table_names db) of
           Inl error \<Rightarrow> failed error
         | Inr tables \<Rightarrow>
        (case d1_call env 1 (sql_count db) of
           Inl error \<Rightarrow> failed error
         | Inr commentCount \<Rightarrow>
        (case d1_call env 2 (sql_latest_created db) of
           Inl error \<Rightarrow> failed error
         | Inr recentComments \<Rightarrow>
             (json_response 200 d1_corsHeaders
                (JObj (stringify_props
                   [(''tables'', Some (JArr (map (\<lambda>t. JObj [(''name'', JStr t)]) tables))),
                    (''commentCount'', Some (JNum (int commentCount))),
                    (''lastCommentTime'',
                     Some (case recentComments of None \<Rightarrow> JNull | Some t \<Rightarrow> JStr t)),
                    (''databaseName'', map_option JStr (database_name env)),
                    (''timestamp'', Some (JStr (toISOString (d1_now env))))])),
              db, []))))"

definition d1_not_found :: response where
  "d1_not_found = json_response 404 d1_corsHeaders (JObj [(''error'', JStr msg_not_found)])"

text \<open>The handler: the chain of \<^verbatim>\<open>if\<close> statements of \<^verbatim>\<open>fetch\<close>, in the order of the
  source.\<close>

definition d1_fetch :: "d1_env \<Rightarrow> request \<Rightarrow> database \<Rightarrow> response \<times> database \<times> console list" where
  "d1_fetch env request db =
     (if rq_method request = ''OPTIONS'' then (preflight_response d1_corsHeaders, db, [])
      else if rq_pathname request = ''/health'' then d1_health env db
      else if rq_pathname request = ''/api/comments'' \<and> rq_method request = ''GET''
        then d1_list env request db
      else if rq_pathname request = ''/api/comments'' \<and> rq_method request = ''POST''
        then d1_submit env request db
      else if rq_pathname request = ''/api/comments'' \<and> rq_method request = ''DELETE''
        then d1_delete env request db
      else if rq_pathname request = ''/api/comments/cleanup'' \<and> rq_method request = ''POST''
        then d1_cleanup env request db
      else if rq_pathname request = ''/admin/db-info'' then d1_db_info env db
      else (d1_not_found, db, []))"

text \<open>The database before any request: no table.\<close>

definition fresh_database :: database where
  "fresh_database = \<lparr>comments_table = None, sequence = 0\<rparr>"

section \<open>Example requests\<close>

definition post_hello :: request where
  "post_hello =
     \<lparr>rq_method = ''POST'', rq_pathname = ''/api/comments'', rq_searchParams = [],
      rq_headers = [],
      rq_json = Some (JObj [(''email'', JStr ''a@b.com''), (''comment'', JStr ''hi''),
                            (''color'', JStr ''red'')])\<rparr>"

definition posts_101 :: "(mem_env \<times> request) list" where
  "posts_101 = map (\<lambda>i. (\<lparr>date_now = int i, new_date = int i\<rparr>, post_hello)) [0..<101]"

section \<open>Properties of the in-memory worker\<close>

lemma length_unshift_capped: "length (unshift_capped c cs) \<le> 100"
  by (simp add: unshift_capped_def Let_def)

lemma unshift_capped_take: "unshift_capped c cs = take 100 (c # cs)"
  by (simp add: unshift_capped_def Let_def)

lemma mem_fetch_inserts:
  "mem_inserts request \<Longrightarrow>
     snd (mem_fetch env request comments) = take 100 (inserted (env, request) # comments)"
  by (auto simp: mem_inserts_def mem_fetch_def inserted_def unshift_capped_take Let_def
           split: option.splits json.splits)

lemma mem_fetch_store_cases:
  "snd (mem_fetch env request comments) = comments \<or>
   (\<exists>c. snd (mem_fetch env request comments) = unshift_capped c comments)"
  by (auto simp: mem_fetch_def Let_def split: option.splits json.splits)

lemma mem_fetch_cap:
  "length comments \<le> 100 \<Longrightarrow> length (snd (mem_fetch env request comments)) \<le> 100"
  using mem_fetch_store_cases [of env request comments] length_unshift_capped by auto

lemma mem_run_cap: "length comments \<le> 100 \<Longrightarrow> length (mem_run comments evs) \<le> 100"
proof (induction evs arbitrary: comments)
  case Nil
  then show ?case by simp
next
  case (Cons ev evs)
  obtain env request where ev: "ev = (env, request)" by (cases ev)
  from Cons.prems have "length (snd (mem_fetch env request comments)) \<le> 100"
    by (rule mem_fetch_cap)
  then show ?case using Cons.IH ev by simp
qed

lemma take_append_take: "take n (xs @ take n ys) = take n (xs @ ys)"
  by (simp add: min_def)

lemma mem_run_inserts:
  "\<forall>ev \<in> set evs. mem_inserts (snd ev) \<Longrightarrow> length comments \<le> 100 \<Longrightarrow>
     mem_run comments evs = take 100 (rev (map inserted evs) @ comments)"
proof (induction evs arbitrary: comments)
  case Nil
  then show ?case by simp
next
  case (Cons ev evs)
  obtain env request where ev: "ev = (env, request)" by (cases ev)
  from Cons.prems ev have ins: "mem_inserts request" by simp
  have "mem_run comments (ev # evs) = mem_run (take 100 (inserted ev # comments)) evs"
    using ev mem_fetch_inserts [OF ins] by simp
  also have "\<dots> = take 100 (rev (map inserted evs) @ take 100 (inserted ev # comments))"
    using Cons.prems by (intro Cons.IH) simp_all
  also have "\<dots> = take 100 (rev (map inserted evs) @ inserted ev # comments)"
    by (rule take_append_take)
  finally show ?case by simp
qed

text \<open>
  C4. Starting from the empty store of a fresh isolate, the store never holds more than
  100 records, whatever requests arrive; and after 101 inserting requests it is exactly
  the records of the last 100 of them, newest first: the record of the first request
  has been dropped.
\<close>

theorem mem_store_cap_100:
  "length (mem_run [] evs) \<le> 100 \<and>
   (length evs = 101 \<longrightarrow> (\<forall>ev \<in> set evs. mem_inserts (snd ev)) \<longrightarrow>
      mem_run [] evs = rev (map inserted (tl evs)) \<and> length (mem_run [] evs) = 100)"
proof (intro conjI impI)
  show "length (mem_run [] evs) \<le> 100"
    by (rule mem_run_cap) simp
next
  assume len: "length evs = 101" and ins: "\<forall>ev \<in> set evs. mem_inserts (snd ev)"
  from len obtain ev rest where evs: "evs = ev # rest" and rest: "length rest = 100"
    by (cases evs) auto
  have "mem_run [] evs = take 100 (rev (map inserted evs) @ [])"
    using ins by (intro mem_run_inserts) simp_all
  also have "\<dots> = take 100 (rev (map inserted rest) @ [inserted ev])"
    by (simp add: evs)
  also have "\<dots> = rev (map inserted rest)"
    using rest by simp
  finally show "mem_run [] evs = rev (map inserted (tl evs))"
    by (simp add: evs)
  then show "length (mem_run [] evs) = 100"
    using rest by (simp add: evs)
qed

theorem mem_store_cap_100_witness:
  "length posts_101 = 101 \<and> list_all (\<lambda>ev. mem_inserts (snd ev)) posts_101 \<and>
   length (mem_run [] posts_101) = 100 \<and>
   map c_id (mem_run [] posts_101) = rev (map int [1..<101])"
proof -
  have len: "length posts_101 = 101"
    by (simp add: posts_101_def)
  have ins: "\<forall>ev \<in> set posts_101. mem_inserts (snd ev)"
    by (simp add: posts_101_def mem_inserts_def post_hello_def)
  have run: "mem_run [] posts_101 = rev (map inserted (tl posts_101)) \<and>
             length (mem_run [] posts_101) = 100"
    using mem_store_cap_100 [of posts_101] len ins by blast
  have "[0..<101] = 0 # [1..<101]"
    by (simp add: upt_eq_Cons_conv)
  then have "tl posts_101 =
          map (\<lambda>i. (\<lparr>date_now = int i, new_date = int i\<rparr>, post_hello)) [1..<101]"
    by (simp add: posts_101_def)
  then have "map c_id (rev (map inserted (tl posts_101))) = rev (map int [1..<101])"
    by (simp add: rev_map inserted_def newComment_def o_def)
  with len ins run show ?thesis by (simp add: list_all_iff)
qed

end
